theory Spec2Isabelle
  imports Complex_Main
begin

section \<open>Trading types (src/trading/types.py)\<close>

text \<open>
  Python floats are modelled as exact reals, Python ints as \<open>int\<close>.  A logging call is
  modelled where the evaluation of its message raises, and not otherwise.  Every call of
  \<open>datetime.now()\<close> inside one modelled call reads the same clock value, passed as the
  parameter \<open>now\<close>.  A private method keeps its name without the leading underscore.
\<close>

type_synonym date = int
type_synonym datetime = "date \<times> nat"

definition date_of :: "datetime \<Rightarrow> date" where
  "date_of now = fst now"

datatype TradeSide = BUY | SELL

datatype OrderType = MARKET | LIMIT | STOP | STOP_LIMIT

datatype OrderStatus =
  PENDING | SUBMITTED | FILLED | PARTIALLY_FILLED | CANCELLED | REJECTED | FAILED

datatype MarketType = HK | US | CN

text \<open>
  \<open>TradeOrder\<close> and \<open>TradeResult\<close> set \<open>use_enum_values = True\<close>: a field declared with
  an enum type holds the value of the member, a plain \<open>str\<close>.  The enums derive from
  \<open>str\<close>, so a comparison \<open>order.side == TradeSide.BUY\<close> of the stored string with a member
  is the comparison of the two strings; in the records below the datatype of the enum stands
  for the stored string.  A \<open>str\<close> has no attribute \<open>value\<close>: the read \<open>order.side.value\<close>
  raises \<open>AttributeError\<close>.
\<close>

record TradeOrder =
  symbol :: string
  side :: TradeSide
  quantity :: int
  order_type :: OrderType
  price :: "real option"
  stop_price :: "real option"
  market :: MarketType
  time_in_force :: string

text \<open>\<open>AccountInfo\<close> and \<open>Position\<close> are \<open>TypedDict\<close>s: at run time an instance is a
  plain \<open>dict\<close> with these keys.\<close>

record AccountInfo =
  account_id :: string
  total_assets :: real
  cash :: real
  market_value :: real
  unrealized_pnl :: real
  realized_pnl :: real
  buying_power :: real

record Position =
  pos_symbol :: string
  pos_quantity :: int
  avg_cost :: real
  pos_market_value :: real
  pos_unrealized_pnl :: real
  pos_market_price :: real

datatype exn =
    AttributeError string
  | NameError string
  | ValueError string
  | ValidationError string
  | BrokerError string

text \<open>The read \<open>order.side.value\<close> on the stored string of a side.\<close>

definition side_value :: "TradeSide \<Rightarrow> exn + string" where
  "side_value sd = Inl (AttributeError ''value'')"

text \<open>Python truthiness of an \<open>Optional[float]\<close>: \<open>None\<close> and \<open>0.0\<close> are false.\<close>

definition truthy :: "real option \<Rightarrow> bool" where
  "truthy x = (case x of None \<Rightarrow> False | Some v \<Rightarrow> v \<noteq> 0)"

text \<open>\<open>a or b\<close> on optional floats where \<open>b\<close> is a float.\<close>

definition or_else :: "real option \<Rightarrow> real \<Rightarrow> real" where
  "or_else x d = (case x of None \<Rightarrow> d | Some v \<Rightarrow> if v \<noteq> 0 then v else d)"

text \<open>
  Attribute access \<open>account_info.name\<close> on an \<open>AccountInfo\<close>.  The value is a \<open>dict\<close>;
  its keys are not attributes, and the attributes a \<open>dict\<close> does have are its methods, none
  of which is named \<open>cash\<close> or \<open>net_liquidation\<close>.  The read raises \<open>AttributeError\<close>.
\<close>

definition getattr_AccountInfo :: "AccountInfo \<Rightarrow> string \<Rightarrow> exn + real" where
  "getattr_AccountInfo account_info name = Inl (AttributeError name)"


section \<open>Risk manager (src/trading/risk_controls.py)\<close>

datatype RiskLevel = LOW | MEDIUM | HIGH | CRITICAL

text \<open>The messages of the risk checks.  Each constructor stands for one string template of
  the source and carries the values the template interpolates; \<open>Joined\<close> is
  \<open>"; ".join(failed_checks)\<close>.\<close>

datatype message =
    Circuit_breaker_halted
  | Position_size_exceeds real real
  | Position_size_approaching
  | Position_size_OK
  | Sell_order_increases_cash
  | Insufficient_cash_reserve real real
  | Cash_reserve_low
  | Cash_reserve_OK
  | Daily_loss_limit_exceeded real
  | Approaching_daily_loss_limit
  | Daily_pnl_within_limits
  | Daily_trade_limit_reached int
  | Approaching_daily_trade_limit
  | Trading_frequency_OK
  | No_portfolio_value
  | Concentration_exceeds real real
  | Concentration_approaching
  | Concentration_OK
  | Concentration_check_skipped
  | All_risk_checks_passed
  | Joined "message list"

type_synonym check = "bool \<times> RiskLevel \<times> message"

record RiskLimits =
  max_position_size :: real
  max_portfolio_value :: real
  max_daily_loss :: real
  max_position_concentration :: real
  max_trades_per_day :: real
  min_cash_reserve :: real

record trade_record =
  tr_timestamp :: datetime
  tr_symbol :: string
  tr_side :: TradeSide
  tr_quantity :: int
  tr_price :: real

record risk_event =
  ev_timestamp :: datetime
  ev_order :: TradeOrder
  ev_message :: message
  ev_risk_level :: RiskLevel

record RiskManager =
  limits :: RiskLimits
  daily_pnl :: real
  daily_trades :: int
  rm_trade_history :: "trade_record list"
  last_reset :: date
  risk_events :: "risk_event list"
  circuit_breaker_active :: bool

definition config_get :: "(string \<rightharpoonup> real) \<Rightarrow> string \<Rightarrow> real \<Rightarrow> real" where
  "config_get config k d = (case config k of None \<Rightarrow> d | Some v \<Rightarrow> v)"

definition RiskManager_init :: "datetime \<Rightarrow> (string \<rightharpoonup> real) \<Rightarrow> RiskManager" where
  "RiskManager_init now config =
     \<lparr> limits = \<lparr> max_position_size = config_get config ''max_position_size'' 100000,
                   max_portfolio_value = config_get config ''max_portfolio_value'' 1000000,
                   max_daily_loss = config_get config ''max_daily_loss'' 10000,
                   max_position_concentration =
                     config_get config ''max_position_concentration'' (2 / 10),
                   max_trades_per_day = config_get config ''max_trades_per_day'' 100,
                   min_cash_reserve = config_get config ''min_cash_reserve'' 10000 \<rparr>,
       daily_pnl = 0,
       daily_trades = 0,
       rm_trade_history = [],
       last_reset = date_of now,
       risk_events = [],
       circuit_breaker_active = False \<rparr>"

definition check_position_size :: "RiskManager \<Rightarrow> TradeOrder \<Rightarrow> AccountInfo \<Rightarrow> check" where
  "check_position_size self order account_info =
     (let position_value =
            (case price order of
               None \<Rightarrow> real_of_int (quantity order) * 100
             | Some p \<Rightarrow>
                 if p \<noteq> 0 then real_of_int (quantity order) * p
                 else real_of_int (quantity order) * 100);
          max_size = max_position_size (limits self)
      in if position_value > max_size
           then (False, CRITICAL, Position_size_exceeds position_value max_size)
         else if position_value > max_size * (8 / 10)
           then (True, HIGH, Position_size_approaching)
         else (True, LOW, Position_size_OK))"

definition check_cash_reserve ::
  "RiskManager \<Rightarrow> TradeOrder \<Rightarrow> AccountInfo \<Rightarrow> exn + check" where
  "check_cash_reserve self order account_info =
     (if side order = SELL then Inr (True, LOW, Sell_order_increases_cash)
      else
        let required_cash = real_of_int (quantity order) * or_else (price order) 0
        in case getattr_AccountInfo account_info ''cash'' of
             Inl e \<Rightarrow> Inl e
           | Inr account_cash \<Rightarrow>
               let remaining_cash = account_cash - required_cash;
                   min_reserve = min_cash_reserve (limits self)
               in if remaining_cash < min_reserve
                    then Inr (False, CRITICAL,
                              Insufficient_cash_reserve remaining_cash min_reserve)
                  else if remaining_cash < min_reserve * (15 / 10)
                    then Inr (True, MEDIUM, Cash_reserve_low)
                  else Inr (True, LOW, Cash_reserve_OK))"

definition check_daily_loss :: "AccountInfo \<Rightarrow> RiskManager \<Rightarrow> check \<times> RiskManager" where
  "check_daily_loss account_info self =
     (let max_loss = max_daily_loss (limits self)
      in if daily_pnl self < - max_loss
           then ((False, CRITICAL, Daily_loss_limit_exceeded \<bar>daily_pnl self\<bar>),
                 self\<lparr>circuit_breaker_active := True\<rparr>)
         else if daily_pnl self < - max_loss * (8 / 10)
           then ((True, HIGH, Approaching_daily_loss_limit), self)
         else ((True, LOW, Daily_pnl_within_limits), self))"

definition check_trading_frequency :: "RiskManager \<Rightarrow> check" where
  "check_trading_frequency self =
     (let max_trades = max_trades_per_day (limits self)
      in if real_of_int (daily_trades self) \<ge> max_trades
           then (False, CRITICAL, Daily_trade_limit_reached (daily_trades self))
         else if real_of_int (daily_trades self) \<ge> max_trades * (9 / 10)
           then (True, MEDIUM, Approaching_daily_trade_limit)
         else (True, LOW, Trading_frequency_OK))"

text \<open>\<open>next((p for p in positions if p['symbol'] == order.symbol), default)\<close>\<close>

fun find_position :: "Position list \<Rightarrow> string \<Rightarrow> Position option" where
  "find_position [] s = None"
| "find_position (p # ps) s = (if pos_symbol p = s then Some p else find_position ps s)"

text \<open>The body of the concentration check after \<open>portfolio_value\<close> has been read.  Inside
  the \<open>try\<close> the divisor is \<open>max(quantity, 1) \<ge> 1\<close> and \<open>portfolio_value > 0\<close>, so no
  operation of the block raises on values of the declared types.\<close>

definition concentration_verdict ::
  "RiskManager \<Rightarrow> real \<Rightarrow> TradeOrder \<Rightarrow> Position list \<Rightarrow> check" where
  "concentration_verdict self portfolio_value order positions =
     (if portfolio_value \<le> 0 then (True, LOW, No_portfolio_value)
      else
        let (cur_quantity, cur_market_value) =
              (case find_position positions (symbol order) of
                 None \<Rightarrow> (0, 0)
               | Some p \<Rightarrow> (pos_quantity p, pos_market_value p));
            new_quantity =
              (if side order = BUY then cur_quantity + quantity order
               else cur_quantity - quantity order);
            estimated_price =
              or_else (price order) (cur_market_value / real_of_int (max cur_quantity 1));
            new_position_value = \<bar>real_of_int new_quantity * estimated_price\<bar>;
            concentration =
              (if portfolio_value > 0 then new_position_value / portfolio_value else 0);
            limit = max_position_concentration (limits self)
        in if concentration > limit
             then (False, HIGH, Concentration_exceeds concentration limit)
           else if concentration > limit * (8 / 10)
             then (True, MEDIUM, Concentration_approaching)
           else (True, LOW, Concentration_OK))"

text \<open>The first statement, \<open>portfolio_value = account_info.net_liquidation\<close>, stands before
  the \<open>try\<close>: an exception it raises is not handled in this function.\<close>

definition check_position_concentration ::
  "RiskManager \<Rightarrow> TradeOrder \<Rightarrow> AccountInfo \<Rightarrow> Position list \<Rightarrow> exn + check" where
  "check_position_concentration self order account_info positions =
     (case getattr_AccountInfo account_info ''net_liquidation'' of
        Inl e \<Rightarrow> Inl e
      | Inr portfolio_value \<Rightarrow>
          Inr (concentration_verdict self portfolio_value order positions))"

definition check_daily_reset :: "datetime \<Rightarrow> RiskManager \<Rightarrow> RiskManager" where
  "check_daily_reset now self =
     (let today = date_of now
      in if today > last_reset self
           then self\<lparr>daily_pnl := 0, daily_trades := 0,
                     circuit_breaker_active := False, last_reset := today\<rparr>
         else self)"

definition log_risk_event ::
  "datetime \<Rightarrow> TradeOrder \<Rightarrow> message \<Rightarrow> RiskLevel \<Rightarrow> RiskManager \<Rightarrow> RiskManager" where
  "log_risk_event now order msg risk_level self =
     self\<lparr>risk_events := risk_events self @
            [\<lparr>ev_timestamp = now, ev_order = order, ev_message = msg,
              ev_risk_level = risk_level\<rparr>]\<rparr>"

text \<open>The loop over the five check results: the accumulator is
  \<open>(max_risk_level, failed_checks)\<close> and the manager, whose event log grows.\<close>

definition track_level :: "RiskLevel \<Rightarrow> RiskLevel \<Rightarrow> RiskLevel" where
  "track_level risk_level max_risk_level =
     (if risk_level = CRITICAL then CRITICAL
      else if risk_level = HIGH \<and> max_risk_level \<noteq> CRITICAL then HIGH
      else if risk_level = MEDIUM \<and> max_risk_level = LOW then MEDIUM
      else max_risk_level)"

fun scan_checks ::
  "datetime \<Rightarrow> TradeOrder \<Rightarrow> check list \<Rightarrow> RiskLevel \<times> message list \<Rightarrow> RiskManager
     \<Rightarrow> (RiskLevel \<times> message list) \<times> RiskManager" where
  "scan_checks now order [] acc self = (acc, self)"
| "scan_checks now order ((is_valid, risk_level, msg) # cs) (max_risk_level, failed_checks) self =
     (if \<not> is_valid
        then scan_checks now order cs
               (track_level risk_level max_risk_level, failed_checks @ [msg])
               (log_risk_event now order msg risk_level self)
      else scan_checks now order cs
             (track_level risk_level max_risk_level, failed_checks) self)"

type_synonym verdict = "bool \<times> message \<times> RiskLevel"

definition validate_order ::
  "datetime \<Rightarrow> TradeOrder \<Rightarrow> AccountInfo \<Rightarrow> Position list \<Rightarrow> RiskManager
     \<Rightarrow> (exn + verdict) \<times> RiskManager" where
  "validate_order now order account_info positions self0 =
     (let self1 = check_daily_reset now self0
      in if circuit_breaker_active self1
           then (Inr (False, Circuit_breaker_halted, CRITICAL), self1)
         else
           let c1 = check_position_size self1 order account_info
           in case check_cash_reserve self1 order account_info of
                Inl e \<Rightarrow> (Inl e, self1)
              | Inr c2 \<Rightarrow>
                  let (c3, self2) = check_daily_loss account_info self1;
                      c4 = check_trading_frequency self2
                  in case check_position_concentration self2 order account_info positions of
                       Inl e \<Rightarrow> (Inl e, self2)
                     | Inr c5 \<Rightarrow>
                         let ((max_risk_level, failed_checks), self3) =
                               scan_checks now order [c1, c2, c3, c4, c5] (LOW, []) self2
                         in if failed_checks \<noteq> []
                              then (Inr (False, Joined failed_checks, max_risk_level), self3)
                            else (Inr (True, All_risk_checks_passed, max_risk_level), self3))"

definition record_trade ::
  "datetime \<Rightarrow> TradeOrder \<Rightarrow> int \<Rightarrow> real \<Rightarrow> RiskManager \<Rightarrow> RiskManager" where
  "record_trade now order executed_qty execution_price self =
     self\<lparr>daily_trades := daily_trades self + 1,
          rm_trade_history := rm_trade_history self @
            [\<lparr>tr_timestamp = now, tr_symbol = symbol order, tr_side = side order,
              tr_quantity = executed_qty, tr_price = execution_price\<rparr>]\<rparr>"

definition update_pnl :: "real \<Rightarrow> RiskManager \<Rightarrow> RiskManager" where
  "update_pnl pnl_change self =
     (let self1 = self\<lparr>daily_pnl := daily_pnl self + pnl_change\<rparr>
      in if daily_pnl self1 < - max_daily_loss (limits self1)
           then self1\<lparr>circuit_breaker_active := True\<rparr>
         else self1)"

definition reset_circuit_breaker :: "RiskManager \<Rightarrow> RiskManager" where
  "reset_circuit_breaker self = self\<lparr>circuit_breaker_active := False\<rparr>"

text \<open>The calls through which a session drives the manager, \<open>reset_circuit_breaker\<close>
  (the manual reset) apart.\<close>

datatype rm_call =
    Validate_order datetime TradeOrder AccountInfo "Position list"
  | Record_trade datetime TradeOrder int real
  | Update_pnl real

fun rm_step :: "rm_call \<Rightarrow> RiskManager \<Rightarrow> RiskManager" where
  "rm_step (Validate_order now order account_info positions) self =
     snd (validate_order now order account_info positions self)"
| "rm_step (Record_trade now order executed_qty execution_price) self =
     record_trade now order executed_qty execution_price self"
| "rm_step (Update_pnl pnl_change) self = update_pnl pnl_change self"

fun rm_run :: "rm_call list \<Rightarrow> RiskManager \<Rightarrow> RiskManager" where
  "rm_run [] self = self"
| "rm_run (c # cs) self = rm_run cs (rm_step c self)"

text \<open>The date on which a call reads the clock, if it reads it for the day rollover.\<close>

fun rollover_date :: "rm_call \<Rightarrow> date option" where
  "rollover_date (Validate_order now order account_info positions) = Some (date_of now)"
| "rollover_date (Record_trade now order executed_qty execution_price) = None"
| "rollover_date (Update_pnl pnl_change) = None"

definition same_day :: "date \<Rightarrow> rm_call \<Rightarrow> bool" where
  "same_day d c = (case rollover_date c of None \<Rightarrow> True | Some t \<Rightarrow> t \<le> d)"


section \<open>Results and configuration (src/trading/types.py)\<close>

text \<open>The texts a trader attaches to a validation verdict or to a result; each constructor
  stands for one string of the source and carries the interpolated values.\<close>

datatype trade_message =
    Not_connected
  | Dry_run_simulated
  | No_account_information
  | Insufficient_buying_power real real
  | Insufficient_shares int int
  | Order_value_exceeds_limit real real
  | Trade_validation_passed
  | No_trading_account
  | Failed_to_unlock_trading
  | Order_submission_failed string
  | Trade_context_not_available
  | No_market_price_for_simulation
  | Exception_text exn

record TradeResult =
  order_id :: string
  res_symbol :: string
  res_side :: TradeSide
  res_quantity :: int
  filled_quantity :: int
  avg_price :: "real option"
  status :: OrderStatus
  submit_time :: datetime
  update_time :: "datetime option"
  error_msg :: "trade_message option"
  commission :: "real option"

text \<open>\<open>TradeResult(order_id=.., symbol=order.symbol, side=order.side,
  quantity=order.quantity, status=.., submit_time=..)\<close> with the field defaults of the class;
  the keyword arguments a call site adds are record updates.\<close>

definition new_TradeResult ::
  "string \<Rightarrow> TradeOrder \<Rightarrow> OrderStatus \<Rightarrow> datetime \<Rightarrow> TradeResult" where
  "new_TradeResult oid order st t =
     \<lparr> order_id = oid, res_symbol = symbol order, res_side = side order,
       res_quantity = quantity order, filled_quantity = 0, avg_price = None, status = st,
       submit_time = t, update_time = None, error_msg = None, commission = Some 0 \<rparr>"

record TradeConfig =
  futu_host :: string
  futu_port :: int
  trading_account :: "string option"
  trading_pwd :: "string option"
  cfg_max_position_size :: real
  max_daily_trades :: int
  max_order_value :: real
  dry_run :: bool
  enable_short_selling :: bool
  default_market :: MarketType
  log_trades :: bool
  log_level :: string

text \<open>The constructor of \<open>TradeOrder\<close> validates \<open>quantity > 0\<close>.\<close>

definition new_TradeOrder ::
  "string \<Rightarrow> TradeSide \<Rightarrow> int \<Rightarrow> OrderType \<Rightarrow> MarketType \<Rightarrow> real option
     \<Rightarrow> exn + TradeOrder" where
  "new_TradeOrder smb sd qty ot mkt pr =
     (if qty > 0
        then Inr \<lparr> symbol = smb, side = sd, quantity = qty, order_type = ot, price = pr,
                   stop_price = None, market = mkt, time_in_force = ''DAY'' \<rparr>
      else Inl (ValidationError ''quantity''))"


section \<open>The broker gateway\<close>

text \<open>
  The Futu SDK and the OpenD gateway behind it are outside the repository.  A call of the
  SDK returns a pair \<open>(ret, data)\<close> or raises; the gateway is the table of these answers,
  together with the list of the requests \<open>place_order\<close> has received.  In a data frame
  only the columns the trader reads are kept, a missing column being \<open>None\<close>.
\<close>

datatype 'a reply = RET_OK 'a | RET_ERROR string | Raised string

record acc_row =
  row_total_assets :: "real option"
  row_cash :: "real option"
  row_market_val :: "real option"
  row_unrealized_pl :: "real option"
  row_realized_pl :: "real option"
  row_avl_withdrawal_cash :: "real option"

record pos_row =
  row_code :: "string option"
  row_qty :: "int option"
  row_cost_price :: "real option"
  row_pos_market_val :: "real option"
  row_pos_unrealized_pl :: "real option"
  row_cur_price :: "real option"

record order_row =
  row_dealt_qty :: "int option"
  row_dealt_avg_price :: "real option"
  row_order_status :: "string option"

record place_request =
  req_price :: real
  req_qty :: int
  req_code :: string
  req_trd_side :: TradeSide
  req_market_order :: bool
  req_acc_id :: string

record gateway =
  subscribe_reply :: "string \<Rightarrow> unit reply"
  quote_reply :: "string \<Rightarrow> real list reply"
  acc_list_reply :: "string list reply"
  accinfo_reply :: "string \<Rightarrow> acc_row list reply"
  position_reply :: "string \<Rightarrow> pos_row list reply"
  unlock_reply :: "string \<Rightarrow> unit reply"
  place_order_reply :: "place_request \<Rightarrow> string list reply"
  order_list_reply :: "string \<Rightarrow> string \<Rightarrow> order_row list reply"
  placed :: "place_request list"

definition get_or :: "'a option \<Rightarrow> 'a \<Rightarrow> 'a" where
  "get_or x d = (case x of None \<Rightarrow> d | Some v \<Rightarrow> v)"

text \<open>Truthiness of an optional string: \<open>None\<close> and the empty string are false.\<close>

definition nonempty :: "string option \<Rightarrow> bool" where
  "nonempty x = (case x of None \<Rightarrow> False | Some v \<Rightarrow> v \<noteq> [])"


section \<open>Base trader (src/trading/base_trader.py)\<close>

record BaseTrader =
  config :: TradeConfig
  is_connected :: bool
  trade_history :: "TradeResult list"

text \<open>\<open>str.isdigit\<close> on ASCII strings: non-empty and all characters decimal digits.\<close>

definition isdigit :: "string \<Rightarrow> bool" where
  "isdigit s = (s \<noteq> [] \<and> list_all (\<lambda>c. c \<in> set ''0123456789'') s)"

text \<open>
  The module \<open>base_trader.py\<close> imports six names from \<open>.types\<close>, and \<open>MarketType\<close> is
  not one of them; the import of \<open>MarketType\<close> inside \<open>_convert_action_to_order\<close> binds a
  local name of that method only.  In \<open>_detect_market\<close> the name is looked up among the
  globals of the module, where it is not bound: each of the three \<open>return\<close> statements
  raises \<open>NameError\<close>.  (The model is of an interpreter on which the class is created,
  one that evaluates the annotation \<open>-> MarketType\<close> lazily.)
\<close>

definition global_MarketType :: "MarketType \<Rightarrow> exn + MarketType" where
  "global_MarketType member = Inl (NameError ''MarketType'')"

definition detect_market :: "string \<Rightarrow> exn + MarketType" where
  "detect_market smb =
     (if isdigit smb \<and> length smb = 5 then global_MarketType HK
      else if isdigit smb \<and> length smb = 6 then global_MarketType CN
      else global_MarketType US)"

definition convert_action_to_order ::
  "string \<Rightarrow> string \<Rightarrow> int \<Rightarrow> real option \<Rightarrow> exn + TradeOrder option" where
  "convert_action_to_order ticker action qty current_price =
     (let sd = (if action = ''buy'' then Some BUY
                else if action = ''sell'' then Some SELL
                else if action = ''short'' then Some SELL
                else if action = ''cover'' then Some BUY
                else None)
      in case sd of
           None \<Rightarrow> Inr None
         | Some s \<Rightarrow>
             (case detect_market ticker of
                Inl e \<Rightarrow> Inl e
              | Inr mkt \<Rightarrow>
                  (case new_TradeOrder ticker s qty MARKET mkt
                          (if truthy current_price then current_price else None) of
                     Inl e \<Rightarrow> Inl e
                   | Inr order \<Rightarrow> Inr (Some order))))"

text \<open>\<open>BaseTrader.execute_trade\<close>.  The abstract method \<open>submit_order\<close> of the subclass is
  the parameter \<open>submit\<close>; an exception it raises leaves through this method.\<close>

definition execute_trade ::
  "(TradeOrder \<Rightarrow> 'a BaseTrader_scheme \<Rightarrow> (exn + TradeResult) \<times> 'a BaseTrader_scheme)
     \<Rightarrow> string \<Rightarrow> string \<Rightarrow> int \<Rightarrow> real option \<Rightarrow> 'a BaseTrader_scheme
     \<Rightarrow> (exn + int) \<times> 'a BaseTrader_scheme" where
  "execute_trade submit ticker action qty current_price self =
     (if action = ''hold'' \<or> qty \<le> 0 then (Inr 0, self)
      else case convert_action_to_order ticker action qty current_price of
             Inl e \<Rightarrow> (Inl e, self)
           | Inr None \<Rightarrow> (Inr 0, self)
           | Inr (Some order) \<Rightarrow>
               (case submit order self of
                  (Inl e, self1) \<Rightarrow> (Inl e, self1)
                | (Inr result, self1) \<Rightarrow>
                    (Inr (filled_quantity result),
                     self1\<lparr>trade_history := trade_history self1 @ [result]\<rparr>)))"

text \<open>\<open>BaseTrader.validate_trade\<close>; the three abstract reads of the subclass are
  parameters.  \<open>estimated_value\<close> is
  \<open>order.quantity * (order.price or await self.get_market_price(order.symbol) or 0)\<close>,
  which the source computes for the buying-power check and again for the order-value
  check.  A position that is found is a non-empty \<open>dict\<close>, hence true.  Once the account
  is known the method reads \<open>order.side.value\<close>, and the exception of that read leaves the
  method.\<close>

definition estimated_value ::
  "(string \<Rightarrow> 'a BaseTrader_scheme \<Rightarrow> real option) \<Rightarrow> TradeOrder \<Rightarrow> 'a BaseTrader_scheme
     \<Rightarrow> real" where
  "estimated_value price_of order self =
     real_of_int (quantity order) *
       or_else (price order) (or_else (price_of (symbol order) self) 0)"

text \<open>\<open>position['quantity'] if position else 0\<close>\<close>

definition held_quantity :: "Position list \<Rightarrow> string \<Rightarrow> int" where
  "held_quantity positions smb =
     (case find_position positions smb of None \<Rightarrow> 0 | Some p \<Rightarrow> pos_quantity p)"

definition validate_trade ::
  "('a BaseTrader_scheme \<Rightarrow> AccountInfo option)
     \<Rightarrow> ('a BaseTrader_scheme \<Rightarrow> Position list)
     \<Rightarrow> (string \<Rightarrow> 'a BaseTrader_scheme \<Rightarrow> real option)
     \<Rightarrow> TradeOrder \<Rightarrow> 'a BaseTrader_scheme \<Rightarrow> exn + bool \<times> trade_message" where
  "validate_trade account_of positions_of price_of order self =
     (if \<not> is_connected self then Inr (False, Not_connected)
      else if dry_run (config self) then Inr (True, Dry_run_simulated)
      else case account_of self of
             None \<Rightarrow> Inr (False, No_account_information)
           | Some account \<Rightarrow>
               (case side_value (side order) of
                  Inl e \<Rightarrow> Inl e
                | Inr v \<Rightarrow>
                    if v = ''BUY''
                       \<and> estimated_value price_of order self > buying_power account
                      then Inr (False, Insufficient_buying_power
                                  (estimated_value price_of order self)
                                  (buying_power account))
                    else
                      (case side_value (side order) of
                         Inl e \<Rightarrow> Inl e
                       | Inr w \<Rightarrow>
                           let position = find_position (positions_of self) (symbol order)
                           in if w = ''SELL''
                                 \<and> (case position of
                                       None \<Rightarrow> True
                                     | Some p \<Rightarrow> pos_quantity p < quantity order)
                                 \<and> \<not> enable_short_selling (config self)
                                then Inr (False, Insufficient_shares (quantity order)
                                            (held_quantity (positions_of self)
                                               (symbol order)))
                              else if estimated_value price_of order self
                                        > max_order_value (config self)
                                then Inr (False, Order_value_exceeds_limit
                                            (estimated_value price_of order self)
                                            (max_order_value (config self)))
                              else Inr (True, Trade_validation_passed))))"


section \<open>Futu trader (src/trading/futu_trader.py)\<close>

text \<open>\<open>quote_ctx\<close> and \<open>trade_ctx\<close> say whether the context object is present; the
  gateway the contexts talk to is the field \<open>gw\<close>.\<close>

record FutuTrader = BaseTrader +
  quote_ctx :: bool
  trade_ctx :: bool
  pending_orders :: "(string \<times> TradeOrder) list"
  gw :: gateway

definition convert_to_futu_symbol :: "string \<Rightarrow> string" where
  "convert_to_futu_symbol smb =
     (if isdigit smb \<and> length smb = 5 then ''HK.'' @ smb
      else if isdigit smb \<and> length smb = 6
        then (if take 1 smb = ''6'' then ''SH.'' @ smb else ''SZ.'' @ smb)
      else ''US.'' @ smb)"

definition demo_account :: AccountInfo where
  "demo_account =
     \<lparr> account_id = ''DEMO_ACCOUNT'', total_assets = 100000, cash = 50000,
       market_value = 50000, unrealized_pnl = 0, realized_pnl = 0, buying_power = 50000 \<rparr>"

text \<open>Every exception inside \<open>get_account_info\<close>, \<open>get_positions\<close> and
  \<open>get_market_price\<close> is caught there and becomes the empty answer.\<close>

definition get_account_info :: "FutuTrader \<Rightarrow> AccountInfo option" where
  "get_account_info self =
     (if \<not> is_connected self then None
      else if dry_run (config self) then Some demo_account
      else if trade_ctx self then
        (case acc_list_reply (gw self) of
           RET_OK acc_list \<Rightarrow>
             (let acc = (case acc_list of
                           a # _ \<Rightarrow> if nonempty (trading_account (config self))
                                    then trading_account (config self) else Some a
                         | [] \<Rightarrow> trading_account (config self))
              in case acc of
                   None \<Rightarrow> None
                 | Some a \<Rightarrow>
                     if a = [] then None
                     else (case accinfo_reply (gw self) a of
                             RET_OK (info # _) \<Rightarrow>
                               Some \<lparr> account_id = a,
                                      total_assets = get_or (row_total_assets info) 0,
                                      cash = get_or (row_cash info) 0,
                                      market_value = get_or (row_market_val info) 0,
                                      unrealized_pnl = get_or (row_unrealized_pl info) 0,
                                      realized_pnl = get_or (row_realized_pl info) 0,
                                      buying_power =
                                        get_or (row_avl_withdrawal_cash info)
                                          (get_or (row_cash info) 0) \<rparr>
                           | _ \<Rightarrow> None))
         | _ \<Rightarrow> None)
      else Some demo_account)"

definition position_of_row :: "pos_row \<Rightarrow> Position" where
  "position_of_row pos =
     \<lparr> pos_symbol = get_or (row_code pos) [],
       pos_quantity = get_or (row_qty pos) 0,
       avg_cost = get_or (row_cost_price pos) 0,
       pos_market_value = get_or (row_pos_market_val pos) 0,
       pos_unrealized_pnl = get_or (row_pos_unrealized_pl pos) 0,
       pos_market_price = get_or (row_cur_price pos) 0 \<rparr>"

definition get_positions :: "FutuTrader \<Rightarrow> Position list" where
  "get_positions self =
     (if \<not> is_connected self then []
      else if dry_run (config self) then []
      else if trade_ctx self then
        (let acc = (if nonempty (trading_account (config self))
                      then trading_account (config self)
                    else (case acc_list_reply (gw self) of
                            RET_OK (a # _) \<Rightarrow> Some a
                          | _ \<Rightarrow> None))
         in case acc of
              None \<Rightarrow> []
            | Some a \<Rightarrow>
                (case position_reply (gw self) a of
                   RET_OK rows \<Rightarrow> map position_of_row rows
                 | _ \<Rightarrow> []))
      else [])"

text \<open>In \<open>get_market_price\<close> the guard \<open>not self.is_connected or not self.quote_ctx\<close> is
  written as the two tests it makes, from left to right.\<close>

definition get_market_price :: "string \<Rightarrow> FutuTrader \<Rightarrow> real option" where
  "get_market_price smb self =
     (if \<not> is_connected self then None
      else if \<not> quote_ctx self then None
      else
        let futu_symbol = convert_to_futu_symbol smb
        in case subscribe_reply (gw self) futu_symbol of
             Raised e \<Rightarrow> None
           | _ \<Rightarrow>
               (case quote_reply (gw self) futu_symbol of
                  RET_OK (last_price # _) \<Rightarrow> Some last_price
                | _ \<Rightarrow> None))"

text \<open>\<open>_simulate_order\<close>.  \<open>if not market_price\<close> sends both \<open>None\<close> and a price of zero
  to the failed result.  After the fill price and the commission, the message of the log
  call reads \<open>order.side.value\<close>; the read stands inside the \<open>try\<close>, and the handler turns
  its exception into a \<open>FAILED\<close> result whose \<open>error_msg\<close> is the text of the exception.\<close>

definition simulate_order ::
  "datetime \<Rightarrow> TradeOrder \<Rightarrow> string \<Rightarrow> datetime \<Rightarrow> FutuTrader \<Rightarrow> TradeResult" where
  "simulate_order now order oid submit_t self =
     (case get_market_price (symbol order) self of
        None \<Rightarrow>
          (new_TradeResult oid order FAILED submit_t)
            \<lparr>error_msg := Some No_market_price_for_simulation\<rparr>
      | Some market_price \<Rightarrow>
          if market_price = 0
            then (new_TradeResult oid order FAILED submit_t)
                   \<lparr>error_msg := Some No_market_price_for_simulation\<rparr>
          else
            let slippage = 1 / 1000;
                fill_price = (if side order = BUY then market_price * (1 + slippage)
                              else market_price * (1 - slippage));
                fee = max 1 (real_of_int (quantity order) * fill_price * (1 / 1000))
            in case side_value (side order) of
                 Inl e \<Rightarrow>
                   (new_TradeResult oid order FAILED submit_t)
                     \<lparr>error_msg := Some (Exception_text e)\<rparr>
               | Inr v \<Rightarrow>
                   (new_TradeResult oid order FILLED submit_t)
                     \<lparr>filled_quantity := quantity order, avg_price := Some fill_price,
                      update_time := Some now, commission := Some fee\<rparr>)"

definition status_of_futu :: "string \<Rightarrow> OrderStatus" where
  "status_of_futu futu_status =
     (if futu_status = ''FILLED_ALL'' then FILLED
      else if futu_status = ''FILLED_PART'' then PARTIALLY_FILLED
      else if futu_status \<in> set [''CANCELLED_ALL'', ''CANCELLED_PART''] then CANCELLED
      else if futu_status \<in> set [''FAILED'', ''DISABLED''] then FAILED
      else SUBMITTED)"

text \<open>The \<open>try\<close> block of \<open>submit_order\<close>: the real trade.  A call of \<open>place_order\<close> is
  recorded in \<open>placed\<close> of the gateway.  An exception of the SDK is caught by the handler of
  the block and becomes a \<open>FAILED\<close> result.\<close>

definition submit_real ::
  "datetime \<Rightarrow> string \<Rightarrow> TradeOrder \<Rightarrow> FutuTrader \<Rightarrow> TradeResult \<times> FutuTrader" where
  "submit_real now oid order self =
     (let rejected = (\<lambda>m. (new_TradeResult oid order REJECTED now)\<lparr>error_msg := Some m\<rparr>);
          failed = (\<lambda>e. (new_TradeResult oid order FAILED now)
                            \<lparr>error_msg := Some (Exception_text (BrokerError e))\<rparr>)
      in if \<not> trade_ctx self
           then ((new_TradeResult oid order FAILED now)
                   \<lparr>error_msg := Some Trade_context_not_available\<rparr>, self)
         else
           case (if nonempty (trading_account (config self))
                   then Inr (get_or (trading_account (config self)) [])
                 else (case acc_list_reply (gw self) of
                         RET_OK (a # _) \<Rightarrow> Inr a
                       | Raised e \<Rightarrow> Inl (failed e)
                       | _ \<Rightarrow> Inl (rejected No_trading_account))) of
             Inl result \<Rightarrow> (result, self)
           | Inr acc \<Rightarrow>
               (case (if nonempty (trading_pwd (config self))
                        then unlock_reply (gw self) (get_or (trading_pwd (config self)) [])
                      else RET_OK ()) of
                  RET_ERROR d \<Rightarrow> (rejected Failed_to_unlock_trading, self)
                | Raised e \<Rightarrow> (failed e, self)
                | RET_OK u \<Rightarrow>
                    let req = \<lparr> req_price = or_else (price order) 0,
                                req_qty = quantity order,
                                req_code = convert_to_futu_symbol (symbol order),
                                req_trd_side = side order,
                                req_market_order = (order_type order = MARKET),
                                req_acc_id = acc \<rparr>;
                        self1 = self\<lparr>gw := (gw self)\<lparr>placed := placed (gw self) @ [req]\<rparr>\<rparr>
                    in case place_order_reply (gw self) req of
                         RET_ERROR d \<Rightarrow> (rejected (Order_submission_failed d), self1)
                       | Raised e \<Rightarrow> (failed e, self1)
                       | RET_OK [] \<Rightarrow> (new_TradeResult oid order SUBMITTED now, self1)
                       | RET_OK (futu_order_id # _) \<Rightarrow>
                           (case order_list_reply (gw self) futu_order_id acc of
                              Raised e \<Rightarrow> (failed e, self1)
                            | RET_OK (status_info # _) \<Rightarrow>
                                let filled_qty = get_or (row_dealt_qty status_info) 0;
                                    avg = get_or (row_dealt_avg_price status_info) 0
                                in ((new_TradeResult futu_order_id order
                                       (status_of_futu
                                          (get_or (row_order_status status_info) [])) now)
                                      \<lparr>filled_quantity := filled_qty,
                                       avg_price := (if avg > 0 then Some avg else None),
                                       update_time := Some now\<rparr>, self1)
                            | _ \<Rightarrow> (new_TradeResult oid order SUBMITTED now, self1))))"

text \<open>\<open>FutuTrader.submit_order\<close>; \<open>uuid\<close> is the value of \<open>str(uuid.uuid4())\<close>.  The call
  of \<open>validate_trade\<close> stands before the \<open>try\<close>: an exception it raises leaves
  \<open>submit_order\<close>.\<close>

definition submit_order ::
  "datetime \<Rightarrow> string \<Rightarrow> TradeOrder \<Rightarrow> FutuTrader \<Rightarrow> (exn + TradeResult) \<times> FutuTrader" where
  "submit_order now uuid order self =
     (case validate_trade get_account_info get_positions get_market_price order self of
        Inl e \<Rightarrow> (Inl e, self)
      | Inr (is_valid, msg) \<Rightarrow>
          if \<not> is_valid
            then (Inr ((new_TradeResult uuid order REJECTED now)\<lparr>error_msg := Some msg\<rparr>),
                  self)
          else if dry_run (config self)
            then (Inr (simulate_order now order uuid now self), self)
          else (case submit_real now uuid order self of
                  (result, self1) \<Rightarrow> (Inr result, self1)))"


section \<open>Live executor (src/trading/live_executor.py)\<close>

text \<open>
  Modelled from the spec: the \<open>Action\<close> enum of \<open>src/backtesting/types.py\<close> is not among
  the sources; its members are the five values of \<open>ActionLiteral\<close>.
\<close>

datatype Action = Action_BUY | Action_SELL | Action_SHORT | Action_COVER | Action_HOLD

definition Action_of :: "string \<Rightarrow> Action option" where
  "Action_of action =
     (if action = ''buy'' then Some Action_BUY
      else if action = ''sell'' then Some Action_SELL
      else if action = ''short'' then Some Action_SHORT
      else if action = ''cover'' then Some Action_COVER
      else if action = ''hold'' then Some Action_HOLD
      else None)"

text \<open>
  The \<open>Portfolio\<close> class of \<open>src/backtesting/portfolio.py\<close> is not among the sources.  The
  executor only calls four of its methods, each with \<open>(ticker, quantity, price)\<close>; they are
  taken as parameters.  Each gives the portfolio after the call, whether the call returned
  or raised: the executor ignores the return value and catches the exception.
\<close>

record 'p portfolio_ops =
  apply_long_buy :: "string \<Rightarrow> int \<Rightarrow> real \<Rightarrow> 'p \<Rightarrow> 'p"
  apply_long_sell :: "string \<Rightarrow> int \<Rightarrow> real \<Rightarrow> 'p \<Rightarrow> 'p"
  apply_short_open :: "string \<Rightarrow> int \<Rightarrow> real \<Rightarrow> 'p \<Rightarrow> 'p"
  apply_short_cover :: "string \<Rightarrow> int \<Rightarrow> real \<Rightarrow> 'p \<Rightarrow> 'p"

record failed_trade =
  ft_timestamp :: datetime
  ft_ticker :: string
  ft_action :: string
  ft_requested_qty :: real
  ft_executed_qty :: int
  ft_price :: real
  ft_error :: "exn option"

record 't LiveTradeExecutor =
  trader :: 't
  sync_portfolio :: bool
  execution_history :: "TradeResult list"
  failed_trades :: "failed_trade list"
  total_trades :: int
  successful_trades :: int

text \<open>\<open>Action(action)\<close> raises \<open>ValueError\<close> on a string that is no member; the handler of
  \<open>_update_local_portfolio\<close> catches it and the portfolio stays as it is.\<close>

definition update_local_portfolio ::
  "'p portfolio_ops \<Rightarrow> 'p \<Rightarrow> string \<Rightarrow> string \<Rightarrow> int \<Rightarrow> real \<Rightarrow> 'p" where
  "update_local_portfolio ops portfolio ticker action qty pr =
     (case Action_of action of
        None \<Rightarrow> portfolio
      | Some Action_BUY \<Rightarrow> apply_long_buy ops ticker qty pr portfolio
      | Some Action_SELL \<Rightarrow> apply_long_sell ops ticker qty pr portfolio
      | Some Action_SHORT \<Rightarrow> apply_short_open ops ticker qty pr portfolio
      | Some Action_COVER \<Rightarrow> apply_short_cover ops ticker qty pr portfolio
      | Some Action_HOLD \<Rightarrow> portfolio)"

text \<open>\<open>int(quantity)\<close> of a float truncates towards zero.\<close>

definition int_of_float :: "real \<Rightarrow> int" where
  "int_of_float x = (if x \<ge> 0 then \<lfloor>x\<rfloor> else \<lceil>x\<rceil>)"

text \<open>\<open>LiveTradeExecutor.execute_trade_async\<close>.  \<open>call\<close> is \<open>self.trader.execute_trade\<close>
  of whatever trader the executor holds.  The result is \<open>Inl\<close> if an exception leaves the
  method.\<close>

definition execute_trade_async ::
  "'p portfolio_ops
     \<Rightarrow> (string \<Rightarrow> string \<Rightarrow> int \<Rightarrow> real option \<Rightarrow> 't \<Rightarrow> (exn + int) \<times> 't)
     \<Rightarrow> datetime \<Rightarrow> string \<Rightarrow> string \<Rightarrow> real option \<Rightarrow> real \<Rightarrow> 'p \<Rightarrow> 't LiveTradeExecutor
     \<Rightarrow> (exn + int) \<times> 'p \<times> 't LiveTradeExecutor" where
  "execute_trade_async ops call now ticker action qty current_price portfolio self =
     (case qty of
        None \<Rightarrow> (Inr 0, portfolio, self)
      | Some q \<Rightarrow>
          if q \<le> 0 then (Inr 0, portfolio, self)
          else if action = ''hold'' then (Inr 0, portfolio, self)
          else
            let self1 = self\<lparr>total_trades := total_trades self + 1\<rparr>
            in case call ticker action (int_of_float q) (Some current_price) (trader self1) of
                 (Inl e, t) \<Rightarrow>
                   (Inr 0, portfolio,
                    self1\<lparr>trader := t,
                          failed_trades := failed_trades self1 @
                            [\<lparr>ft_timestamp = now, ft_ticker = ticker, ft_action = action,
                              ft_requested_qty = q, ft_executed_qty = 0,
                              ft_price = current_price, ft_error = Some e\<rparr>]\<rparr>)
               | (Inr executed_qty, t) \<Rightarrow>
                   if executed_qty > 0
                     then (Inr executed_qty,
                           update_local_portfolio ops portfolio ticker action executed_qty
                             current_price,
                           self1\<lparr>trader := t,
                                 successful_trades := successful_trades self1 + 1\<rparr>)
                   else (Inr executed_qty, portfolio,
                         self1\<lparr>trader := t,
                               failed_trades := failed_trades self1 @
                                 [\<lparr>ft_timestamp = now, ft_ticker = ticker, ft_action = action,
                                   ft_requested_qty = q, ft_executed_qty = executed_qty,
                                   ft_price = current_price, ft_error = None\<rparr>]\<rparr>))"

text \<open>\<open>failed_trades[-10:]\<close>, the \<open>recent_failures\<close> of \<open>get_execution_report\<close>.\<close>

definition recent_failures :: "'t LiveTradeExecutor \<Rightarrow> failed_trade list" where
  "recent_failures self =
     (if failed_trades self \<noteq> []
        then drop (length (failed_trades self) - 10) (failed_trades self)
      else [])"

text \<open>The executor that \<open>create_live_executor\<close> builds holds a \<open>FutuTrader\<close>.\<close>

definition futu_execute_trade_async ::
  "'p portfolio_ops \<Rightarrow> datetime \<Rightarrow> string \<Rightarrow> string \<Rightarrow> string \<Rightarrow> real option \<Rightarrow> real \<Rightarrow> 'p
     \<Rightarrow> FutuTrader LiveTradeExecutor \<Rightarrow> (exn + int) \<times> 'p \<times> FutuTrader LiveTradeExecutor" where
  "futu_execute_trade_async ops now uuid =
     execute_trade_async ops (execute_trade (submit_order now uuid)) now"


section \<open>The trading loop (src/live_main.py)\<close>

text \<open>The state of \<open>run_live_hedge_fund\<close> while it executes the decisions: the executor, the
  risk manager it has constructed, the portfolio object, and its tallies.\<close>

datatype outcome =
  Executed int real real | Failed_no_price | Failed_execution | Errored exn

record 'p live_session =
  executor :: "FutuTrader LiveTradeExecutor"
  risk_manager :: RiskManager
  portfolio_obj :: 'p
  execution_results :: "(string \<times> outcome) list"
  total_executed_value :: real
  session_successful_trades :: int

text \<open>One round of the loop over \<open>decisions.items()\<close>.\<close>

definition run_decision ::
  "'p portfolio_ops \<Rightarrow> datetime \<Rightarrow> string \<Rightarrow> string \<Rightarrow> string \<Rightarrow> int \<Rightarrow> 'p live_session
     \<Rightarrow> 'p live_session" where
  "run_decision ops now uuid ticker action qty s =
     (if action = ''hold'' \<or> qty \<le> 0 then s
      else
        case get_market_price ticker (trader (executor s)) of
          None \<Rightarrow> s\<lparr>execution_results := execution_results s @ [(ticker, Failed_no_price)]\<rparr>
        | Some current_price \<Rightarrow>
            if current_price = 0
              then s\<lparr>execution_results := execution_results s @ [(ticker, Failed_no_price)]\<rparr>
            else
              case futu_execute_trade_async ops now uuid ticker action
                     (Some (real_of_int qty)) current_price (portfolio_obj s) (executor s) of
                (Inl e, p, ex) \<Rightarrow>
                  s\<lparr>executor := ex, portfolio_obj := p,
                    execution_results := execution_results s @ [(ticker, Errored e)]\<rparr>
              | (Inr executed_qty, p, ex) \<Rightarrow>
                  if executed_qty > 0
                    then
                      let executed_value = real_of_int executed_qty * current_price
                      in s\<lparr>executor := ex, portfolio_obj := p,
                           execution_results := execution_results s @
                             [(ticker, Executed executed_qty current_price executed_value)],
                           total_executed_value := total_executed_value s + executed_value,
                           session_successful_trades := session_successful_trades s + 1\<rparr>
                  else s\<lparr>executor := ex, portfolio_obj := p,
                         execution_results := execution_results s @
                           [(ticker, Failed_execution)]\<rparr>)"


section \<open>Scenarios\<close>

text \<open>The configuration \<open>main\<close> builds when no environment variable is set (paper
  trading), and the same with live trading enabled.\<close>

definition paper_config :: TradeConfig where
  "paper_config =
     \<lparr> futu_host = ''127.0.0.1'', futu_port = 11111, trading_account = None,
       trading_pwd = None, cfg_max_position_size = 5000, max_daily_trades = 10,
       max_order_value = 10000, dry_run = True, enable_short_selling = False,
       default_market = HK, log_trades = True, log_level = ''INFO'' \<rparr>"

definition live_config :: TradeConfig where
  "live_config = paper_config\<lparr>dry_run := False\<rparr>"

text \<open>A gateway that quotes AAPL at 150.00 and answers nothing else.\<close>

definition quoting_gateway :: gateway where
  "quoting_gateway =
     \<lparr> subscribe_reply = (\<lambda>code. RET_OK ()),
       quote_reply = (\<lambda>code. if code = ''US.AAPL'' then RET_OK [150] else RET_OK []),
       acc_list_reply = RET_ERROR ''no account'',
       accinfo_reply = (\<lambda>acc. RET_ERROR ''no account''),
       position_reply = (\<lambda>acc. RET_ERROR ''no account''),
       unlock_reply = (\<lambda>pwd. RET_ERROR ''no account''),
       place_order_reply = (\<lambda>req. RET_ERROR ''no account''),
       order_list_reply = (\<lambda>oid acc. RET_ERROR ''no account''),
       placed = [] \<rparr>"


definition paper_trader :: FutuTrader where
  "paper_trader =
     \<lparr> config = paper_config, is_connected = True, trade_history = [],
       quote_ctx = True, trade_ctx = False, pending_orders = [], gw = quoting_gateway \<rparr>"


definition new_executor :: "'t \<Rightarrow> 't LiveTradeExecutor" where
  "new_executor t =
     \<lparr> trader = t, sync_portfolio = True, execution_history = [], failed_trades = [],
       total_trades = 0, successful_trades = 0 \<rparr>"

text \<open>A portfolio that only keeps the list of the calls it receives.\<close>

type_synonym call_log = "(string \<times> string \<times> int \<times> real) list"

definition recording_ops :: "call_log portfolio_ops" where
  "recording_ops =
     \<lparr> apply_long_buy = (\<lambda>t q p log. log @ [(''apply_long_buy'', t, q, p)]),
       apply_long_sell = (\<lambda>t q p log. log @ [(''apply_long_sell'', t, q, p)]),
       apply_short_open = (\<lambda>t q p log. log @ [(''apply_short_open'', t, q, p)]),
       apply_short_cover = (\<lambda>t q p log. log @ [(''apply_short_cover'', t, q, p)]) \<rparr>"

text \<open>The risk configuration of \<open>main\<close>, and the session it starts in paper trading.\<close>

definition main_risk_config :: "string \<rightharpoonup> real" where
  "main_risk_config =
     [''max_portfolio_value'' \<mapsto> 50000, ''max_daily_loss'' \<mapsto> 2000,
      ''max_position_concentration'' \<mapsto> 15 / 100, ''max_sector_concentration'' \<mapsto> 25 / 100,
      ''max_daily_trades'' \<mapsto> 20, ''max_leverage'' \<mapsto> 15 / 10, ''max_drawdown'' \<mapsto> 10 / 100]"

definition main_risk_manager :: RiskManager where
  "main_risk_manager = RiskManager_init (0, 0) main_risk_config"

text \<open>A manager halted on day 10, after three trades and a loss of 2,500.\<close>

definition halted_manager :: RiskManager where
  "halted_manager =
     main_risk_manager\<lparr>daily_pnl := - 2500, daily_trades := 3, last_reset := 10,
                        circuit_breaker_active := True\<rparr>"

definition paper_session :: "call_log live_session" where
  "paper_session =
     \<lparr> executor = new_executor paper_trader, risk_manager = main_risk_manager,
       portfolio_obj = [], execution_results = [], total_executed_value = 0,
       session_successful_trades = 0 \<rparr>"

text \<open>An account of total assets 100,000 and a buy of 100 AAPL at 200.00: a position of
  20,000.\<close>

definition account_100k :: AccountInfo where
  "account_100k =
     \<lparr> account_id = ''test'', total_assets = 100000, cash = 50000, market_value = 50000,
       unrealized_pnl = 0, realized_pnl = 0, buying_power = 50000 \<rparr>"

definition buy_100_aapl :: TradeOrder where
  "buy_100_aapl =
     \<lparr> symbol = ''AAPL'', side = BUY, quantity = 100, order_type = MARKET,
       price = Some 200, stop_price = None, market = US, time_in_force = ''DAY'' \<rparr>"

definition sell_100_aapl :: TradeOrder where
  "sell_100_aapl =
     \<lparr> symbol = ''AAPL'', side = SELL, quantity = 100, order_type = MARKET,
       price = Some 150, stop_price = None, market = US, time_in_force = ''DAY'' \<rparr>"

definition sell_100_msft :: TradeOrder where
  "sell_100_msft =
     \<lparr> symbol = ''MSFT'', side = SELL, quantity = 100, order_type = MARKET,
       price = None, stop_price = None, market = US, time_in_force = ''DAY'' \<rparr>"

text \<open>A trader that overrides \<open>execute_trade\<close>: whatever it is asked, it deals 4 shares at
  150.50, keeps the result in its history and returns the filled quantity.\<close>

definition dealt_result :: "string \<Rightarrow> int \<Rightarrow> TradeResult" where
  "dealt_result ticker qty =
     \<lparr> order_id = ''F1'', res_symbol = ticker, res_side = BUY, res_quantity = qty,
       filled_quantity = 4, avg_price = Some (301 / 2), status = PARTIALLY_FILLED,
       submit_time = (0, 0), update_time = Some (0, 0), error_msg = None,
       commission = Some 0 \<rparr>"

definition dealing_execute_trade ::
  "string \<Rightarrow> string \<Rightarrow> int \<Rightarrow> real option \<Rightarrow> BaseTrader \<Rightarrow> (exn + int) \<times> BaseTrader" where
  "dealing_execute_trade ticker action qty current_price self =
     (Inr (filled_quantity (dealt_result ticker qty)),
      self\<lparr>trade_history := trade_history self @ [dealt_result ticker qty]\<rparr>)"

definition dealing_trader :: BaseTrader where
  "dealing_trader = \<lparr> config = live_config, is_connected = True, trade_history = [] \<rparr>"


section \<open>Properties of the risk manager\<close>

lemma check_daily_reset_same_day:
  "date_of now \<le> last_reset self \<Longrightarrow> check_daily_reset now self = self"
  by (simp add: check_daily_reset_def)

lemma check_daily_reset_inactive:
  "\<not> circuit_breaker_active self \<Longrightarrow> \<not> circuit_breaker_active (check_daily_reset now self)"
  by (simp add: check_daily_reset_def Let_def)

lemma validate_order_halted:
  "circuit_breaker_active self \<Longrightarrow> date_of now \<le> last_reset self \<Longrightarrow>
   validate_order now order account_info positions self =
     (Inr (False, Circuit_breaker_halted, CRITICAL), self)"
  by (simp add: validate_order_def check_daily_reset_def)

lemma validate_order_attribute_error:
  "\<not> circuit_breaker_active (check_daily_reset now self) \<Longrightarrow>
   fst (validate_order now order account_info positions self) =
     Inl (AttributeError (if side order = SELL then ''net_liquidation'' else ''cash''))"
  by (simp add: validate_order_def Let_def check_cash_reserve_def getattr_AccountInfo_def
        check_position_concentration_def split: prod.splits)

lemma validate_order_no_approval:
  "fst (validate_order now order account_info positions self) \<noteq> Inr (True, m, l)"
proof (cases "circuit_breaker_active (check_daily_reset now self)")
  case True
  then show ?thesis by (simp add: validate_order_def Let_def)
next
  case False
  then show ?thesis using validate_order_attribute_error [OF False] by simp
qed

text \<open>
  Claim C3.  Every call of \<open>validate_order\<close> that finds the circuit breaker inactive,
  given an \<open>account_info\<close> that is a dictionary of the declared \<open>AccountInfo\<close> shape,
  raises \<open>AttributeError\<close> instead of returning a verdict: for a buy the cash-reserve
  check reads \<open>account_info.cash\<close>, for a sell the concentration check reads
  \<open>account_info.net_liquidation\<close>, before its own exception handler.  No call of
  \<open>validate_order\<close> returns an approval.
\<close>

theorem validate_order_raises:
  assumes "\<not> circuit_breaker_active self"
  shows "fst (validate_order now order account_info positions self) =
           Inl (AttributeError (if side order = SELL then ''net_liquidation'' else ''cash''))
         \<and> check_position_concentration self order account_info positions =
             Inl (AttributeError ''net_liquidation'')
         \<and> (side order = BUY \<longrightarrow>
              check_cash_reserve self order account_info = Inl (AttributeError ''cash''))
         \<and> (\<forall>m l. fst (validate_order now order account_info positions self)
                      \<noteq> Inr (True, m, l))"
proof -
  have "\<not> circuit_breaker_active (check_daily_reset now self)"
    using assms by (rule check_daily_reset_inactive)
  then have "fst (validate_order now order account_info positions self) =
           Inl (AttributeError (if side order = SELL then ''net_liquidation'' else ''cash''))"
    by (rule validate_order_attribute_error)
  moreover have "check_position_concentration self order account_info positions =
             Inl (AttributeError ''net_liquidation'')"
    by (simp add: check_position_concentration_def getattr_AccountInfo_def)
  moreover have "side order = BUY \<longrightarrow>
              check_cash_reserve self order account_info = Inl (AttributeError ''cash'')"
    by (simp add: check_cash_reserve_def getattr_AccountInfo_def)
  ultimately show ?thesis using validate_order_no_approval by blast
qed

theorem validate_order_raises_witness:
  "\<not> circuit_breaker_active main_risk_manager
   \<and> fst (validate_order (0, 0) buy_100_aapl account_100k [] main_risk_manager) =
       Inl (AttributeError ''cash'')
   \<and> fst (validate_order (0, 0) sell_100_msft account_100k [] main_risk_manager) =
       Inl (AttributeError ''net_liquidation'')"
proof -
  have h: "\<not> circuit_breaker_active main_risk_manager"
    by (simp add: main_risk_manager_def RiskManager_init_def)
  show ?thesis
    using h validate_order_raises [OF h, of "(0, 0)" buy_100_aapl account_100k "[]"]
      validate_order_raises [OF h, of "(0, 0)" sell_100_msft account_100k "[]"]
    by (simp add: buy_100_aapl_def sell_100_msft_def)
qed

lemma rm_step_halted:
  "circuit_breaker_active self \<Longrightarrow> same_day (last_reset self) c \<Longrightarrow>
   circuit_breaker_active (rm_step c self) \<and> last_reset (rm_step c self) = last_reset self"
  by (cases c)
     (simp_all add: same_day_def validate_order_halted record_trade_def update_pnl_def Let_def)

lemma rm_run_halted:
  "circuit_breaker_active self \<Longrightarrow> \<forall>c\<in>set cs. same_day (last_reset self) c \<Longrightarrow>
   circuit_breaker_active (rm_run cs self) \<and> last_reset (rm_run cs self) = last_reset self"
proof (induction cs arbitrary: self)
  case Nil
  then show ?case by simp
next
  case (Cons c cs)
  from Cons.prems have k: "circuit_breaker_active (rm_step c self)"
    "last_reset (rm_step c self) = last_reset self"
    using rm_step_halted [of self c] by auto
  show ?case using Cons.IH [of "rm_step c self"] k Cons.prems by simp
qed

text \<open>
  Claim C6.  If \<open>update_pnl\<close> leaves \<open>daily_pnl\<close> strictly below \<open>- max_daily_loss\<close>, the
  circuit breaker is active afterwards, and every later \<open>validate_order\<close> of the same
  trading day, after any calls of \<open>validate_order\<close>, \<open>record_trade\<close> and \<open>update_pnl\<close> of
  that day and no manual reset, returns \<open>approved = False\<close> at level \<open>CRITICAL\<close>, whatever
  order, account and positions it is given.
\<close>

theorem circuit_breaker_halts_day:
  assumes breach: "daily_pnl (update_pnl pnl_change self) < - max_daily_loss (limits self)"
    and calls: "\<forall>c\<in>set cs. same_day (last_reset self) c"
    and day: "date_of now \<le> last_reset self"
  shows "circuit_breaker_active (update_pnl pnl_change self)
         \<and> fst (validate_order now order account_info positions
                  (rm_run cs (update_pnl pnl_change self))) =
             Inr (False, Circuit_breaker_halted, CRITICAL)"
proof -
  let ?s = "update_pnl pnl_change self"
  have lim: "limits ?s = limits self" and lr: "last_reset ?s = last_reset self"
    by (simp_all add: update_pnl_def Let_def)
  have act: "circuit_breaker_active ?s"
    using breach by (simp add: update_pnl_def Let_def split: if_splits)
  have "circuit_breaker_active (rm_run cs ?s) \<and> last_reset (rm_run cs ?s) = last_reset ?s"
    using act calls lr by (intro rm_run_halted) simp_all
  then show ?thesis
    using act day lr by (simp add: validate_order_halted)
qed

theorem circuit_breaker_halts_day_witness:
  "daily_pnl (update_pnl (- 2001) main_risk_manager) = - max_daily_loss (limits main_risk_manager) - 1
   \<and> circuit_breaker_active (update_pnl (- 2001) main_risk_manager)
   \<and> fst (validate_order (0, 7) buy_100_aapl account_100k []
            (rm_run [Validate_order (0, 3) sell_100_msft account_100k [], Update_pnl 5000,
                     Record_trade (0, 5) buy_100_aapl 100 200]
               (update_pnl (- 2001) main_risk_manager))) =
       Inr (False, Circuit_breaker_halted, CRITICAL)"
proof -
  have lim: "max_daily_loss (limits main_risk_manager) = 2000"
    "last_reset main_risk_manager = 0" "daily_pnl main_risk_manager = 0"
    by (simp_all add: main_risk_manager_def RiskManager_init_def main_risk_config_def
          config_get_def date_of_def)
  have b: "daily_pnl (update_pnl (- 2001) main_risk_manager)
             < - max_daily_loss (limits main_risk_manager)"
    by (simp add: update_pnl_def Let_def lim)
  have c: "\<forall>c\<in>set [Validate_order (0, 3) sell_100_msft account_100k [], Update_pnl 5000,
                     Record_trade (0, 5) buy_100_aapl 100 200].
             same_day (last_reset main_risk_manager) c"
    by (simp add: same_day_def lim date_of_def)
  have d: "date_of (0, 7) \<le> last_reset main_risk_manager"
    by (simp add: lim date_of_def)
  have e: "daily_pnl (update_pnl (- 2001) main_risk_manager) = - max_daily_loss (limits main_risk_manager) - 1"
    by (simp add: update_pnl_def Let_def lim)
  show ?thesis
    using circuit_breaker_halts_day [OF b c d, of buy_100_aapl account_100k "[]"] e
    by simp
qed

lemma check_daily_reset_idem:
  "check_daily_reset now (check_daily_reset now self) = check_daily_reset now self"
  by (simp add: check_daily_reset_def Let_def)

lemma validate_order_after_reset:
  "validate_order now order account_info positions (check_daily_reset now self) =
   validate_order now order account_info positions self"
  by (simp add: validate_order_def check_daily_reset_idem)

lemma check_daily_loss_counters:
  "daily_trades (snd (check_daily_loss a self)) = daily_trades self"
  "daily_pnl (snd (check_daily_loss a self)) = daily_pnl self"
  by (simp_all add: check_daily_loss_def Let_def)

lemma validate_order_counters:
  "daily_trades (snd (validate_order now order account_info positions self)) =
     daily_trades (check_daily_reset now self)
   \<and> daily_pnl (snd (validate_order now order account_info positions self)) =
     daily_pnl (check_daily_reset now self)"
  by (simp add: validate_order_def Let_def check_cash_reserve_def getattr_AccountInfo_def
        check_position_concentration_def check_daily_loss_def split: prod.splits)

text \<open>
  Claim C7.  Day rollover: the last-reset date is a date the clock has shown, so a call
  never comes on an earlier one.  Whenever \<open>validate_order\<close> is called on a date different
  from the last-reset date, \<open>daily_trades\<close> and \<open>daily_pnl\<close> are reset to 0 and the
  circuit breaker to false before the evaluation, also when the breaker was active the day
  before: the evaluation runs on the reset state and is not stopped by that breaker.
  Running the reset check a second time for the same day changes nothing.
\<close>

theorem day_rollover_resets:
  assumes clock: "last_reset self \<le> date_of now"
    and differs: "date_of now \<noteq> last_reset self"
  shows "daily_trades (check_daily_reset now self) = 0
         \<and> daily_pnl (check_daily_reset now self) = 0
         \<and> \<not> circuit_breaker_active (check_daily_reset now self)
         \<and> last_reset (check_daily_reset now self) = date_of now
         \<and> validate_order now order account_info positions self =
             validate_order now order account_info positions (check_daily_reset now self)
         \<and> fst (validate_order now order account_info positions self)
             \<noteq> Inr (False, Circuit_breaker_halted, CRITICAL)
         \<and> daily_trades (snd (validate_order now order account_info positions self)) = 0
         \<and> daily_pnl (snd (validate_order now order account_info positions self)) = 0
         \<and> check_daily_reset now (check_daily_reset now self) = check_daily_reset now self"
proof -
  have r: "daily_trades (check_daily_reset now self) = 0"
    "daily_pnl (check_daily_reset now self) = 0"
    "\<not> circuit_breaker_active (check_daily_reset now self)"
    "last_reset (check_daily_reset now self) = date_of now"
    using clock differs by (simp_all add: check_daily_reset_def Let_def)
  have "fst (validate_order now order account_info positions self)
          \<noteq> Inr (False, Circuit_breaker_halted, CRITICAL)"
    using validate_order_attribute_error [OF r(3)] by simp
  then show ?thesis
    using r validate_order_counters [of now order account_info positions self]
    by (simp add: validate_order_after_reset check_daily_reset_idem)
qed

theorem day_rollover_resets_witness:
  "last_reset halted_manager \<le> date_of (11, 0)
   \<and> date_of (11, 0) \<noteq> last_reset halted_manager
   \<and> circuit_breaker_active halted_manager
   \<and> \<not> circuit_breaker_active (check_daily_reset (11, 0) halted_manager)
   \<and> daily_trades (snd (validate_order (11, 0) buy_100_aapl account_100k [] halted_manager)) = 0
   \<and> daily_pnl (snd (validate_order (11, 0) buy_100_aapl account_100k [] halted_manager)) = 0"
proof -
  have h: "last_reset halted_manager \<le> date_of (11, 0)"
    by (simp add: halted_manager_def date_of_def)
  have d: "date_of (11, 0) \<noteq> last_reset halted_manager"
    by (simp add: halted_manager_def date_of_def)
  have a: "circuit_breaker_active halted_manager"
    by (simp add: halted_manager_def)
  show ?thesis
    using h d a day_rollover_resets [OF h d, of buy_100_aapl account_100k "[]"] by blast
qed

lemma main_limits:
  "max_position_concentration (limits main_risk_manager) = 15 / 100"
  "max_daily_loss (limits main_risk_manager) = 2000"
  by (simp_all add: main_risk_manager_def RiskManager_init_def main_risk_config_def
        config_get_def)

text \<open>
  Claim C9.  With total assets 100,000, the limit 0.15 and an order whose resulting position
  is worth 20,000, the concentration check does not reject at \<open>HIGH\<close>: it raises
  \<open>AttributeError\<close> on \<open>account_info.net_liquidation\<close>, and \<open>validate_order\<close> raises with
  it.  The body of the check, had it been given the portfolio value 100,000, rejects at
  \<open>HIGH\<close> with a message carrying the concentration 20% and the limit 15%.
\<close>

theorem concentration_check_raises:
  "total_assets account_100k = 100000
   \<and> check_position_concentration main_risk_manager buy_100_aapl account_100k [] =
       Inl (AttributeError ''net_liquidation'')
   \<and> fst (validate_order (0, 0) buy_100_aapl account_100k [] main_risk_manager) =
       Inl (AttributeError ''cash'')
   \<and> concentration_verdict main_risk_manager 100000 buy_100_aapl [] =
       (False, HIGH, Concentration_exceeds (20 / 100) (15 / 100))"
proof -
  have "concentration_verdict main_risk_manager 100000 buy_100_aapl [] =
       (False, HIGH, Concentration_exceeds (20 / 100) (15 / 100))"
    by (simp add: concentration_verdict_def main_limits buy_100_aapl_def or_else_def Let_def)
  moreover have "fst (validate_order (0, 0) buy_100_aapl account_100k [] main_risk_manager) =
       Inl (AttributeError ''cash'')"
    by (simp add: validate_order_def check_daily_reset_def main_risk_manager_def
          RiskManager_init_def date_of_def check_cash_reserve_def getattr_AccountInfo_def
          buy_100_aapl_def Let_def)
  ultimately show ?thesis
    by (simp add: check_position_concentration_def getattr_AccountInfo_def account_100k_def)
qed


section \<open>Properties of the trader\<close>

lemma validate_trade_dry_run:
  "is_connected self \<Longrightarrow> dry_run (config self) \<Longrightarrow>
   validate_trade account_of positions_of price_of order self = Inr (True, Dry_run_simulated)"
  by (simp add: validate_trade_def)

lemma submit_order_dry_run:
  "is_connected self \<Longrightarrow> dry_run (config self) \<Longrightarrow>
   submit_order now uuid order self = (Inr (simulate_order now order uuid now self), self)"
  by (simp add: submit_order_def validate_trade_dry_run)

lemma simulate_order_priced:
  "get_market_price (symbol order) self = Some mp \<Longrightarrow> mp \<noteq> 0 \<Longrightarrow>
   simulate_order now order oid t self =
     (new_TradeResult oid order FAILED t)
       \<lparr>error_msg := Some (Exception_text (AttributeError ''value''))\<rparr>"
  by (simp add: simulate_order_def Let_def side_value_def)

lemma paper_price:
  "get_market_price ''AAPL'' paper_trader = Some 150"
  "get_market_price ''MSFT'' paper_trader = None"
  by (simp_all add: get_market_price_def paper_trader_def quoting_gateway_def
        convert_to_futu_symbol_def isdigit_def)

lemma paper_flags:
  "is_connected paper_trader" "dry_run (config paper_trader)"
  "\<not> enable_short_selling (config paper_trader)"
  by (simp_all add: paper_trader_def paper_config_def)

lemma order_fields:
  "side buy_100_aapl = BUY" "quantity buy_100_aapl = 100" "symbol buy_100_aapl = ''AAPL''"
  "side sell_100_aapl = SELL" "quantity sell_100_aapl = 100" "symbol sell_100_aapl = ''AAPL''"
  by (simp_all add: buy_100_aapl_def sell_100_aapl_def)

text \<open>
  Claim C8.  A dry-run submission on a connected trader with the market price 150.00
  fetched is not answered \<open>FILLED\<close> with the full quantity and a price above the market:
  the message of the log call in \<open>_simulate_order\<close> reads \<open>order.side.value\<close>, the read
  raises inside the \<open>try\<close>, and the result is \<open>FAILED\<close> with nothing filled, no average
  price and the default commission.
\<close>

theorem dry_run_fill_fails:
  "fst (submit_order (0, 0) ''u1'' buy_100_aapl paper_trader) =
     Inr \<lparr> order_id = ''u1'', res_symbol = ''AAPL'', res_side = BUY, res_quantity = 100,
           filled_quantity = 0, avg_price = None, status = FAILED, submit_time = (0, 0),
           update_time = None,
           error_msg = Some (Exception_text (AttributeError ''value'')),
           commission = Some 0 \<rparr>"
proof -
  have p: "get_market_price (symbol buy_100_aapl) paper_trader = Some 150"
    by (simp add: order_fields paper_price)
  show ?thesis
    by (simp add: submit_order_dry_run paper_flags simulate_order_priced [OF p]
          new_TradeResult_def order_fields)
qed

text \<open>
  Claim C4.  In dry run on a connected trader \<open>validate_trade\<close> approves a sell of 100
  shares that are not held, with short selling disabled, without a look at the account or
  the positions, as the claim says; but \<open>submit_order\<close> does not report the simulated sell
  filled in full: the simulation fails on \<open>order.side.value\<close> and the result is \<open>FAILED\<close>
  with nothing filled.
\<close>

theorem dry_run_sell_approved_unfilled:
  "validate_trade get_account_info get_positions get_market_price sell_100_aapl paper_trader
     = Inr (True, Dry_run_simulated)
   \<and> fst (submit_order (0, 0) ''u1'' sell_100_aapl paper_trader) =
     Inr \<lparr> order_id = ''u1'', res_symbol = ''AAPL'', res_side = SELL, res_quantity = 100,
           filled_quantity = 0, avg_price = None, status = FAILED, submit_time = (0, 0),
           update_time = None,
           error_msg = Some (Exception_text (AttributeError ''value'')),
           commission = Some 0 \<rparr>"
proof -
  have p: "get_market_price (symbol sell_100_aapl) paper_trader = Some 150"
    by (simp add: order_fields paper_price)
  show ?thesis
    by (simp add: validate_trade_dry_run submit_order_dry_run paper_flags
          simulate_order_priced [OF p] new_TradeResult_def order_fields)
qed


section \<open>Properties of the executor\<close>

lemma detect_market_raises: "detect_market smb = Inl (NameError ''MarketType'')"
  by (simp add: detect_market_def global_MarketType_def)

lemma convert_action_to_order_raises:
  "action = ''buy'' \<or> action = ''sell'' \<or> action = ''short'' \<or> action = ''cover'' \<Longrightarrow>
   convert_action_to_order ticker action qty cp = Inl (NameError ''MarketType'')"
  by (auto simp add: convert_action_to_order_def detect_market_raises)

lemma execute_trade_raises:
  "action = ''buy'' \<or> action = ''sell'' \<or> action = ''short'' \<or> action = ''cover'' \<Longrightarrow>
   0 < qty \<Longrightarrow>
   execute_trade submit ticker action qty cp self = (Inl (NameError ''MarketType''), self)"
  by (auto simp add: execute_trade_def convert_action_to_order_raises)

lemma execute_trade_zero:
  "qty \<le> 0 \<Longrightarrow> execute_trade submit ticker action qty cp self = (Inr 0, self)"
  by (simp add: execute_trade_def)

lemma int_of_float_numeral:
  "int_of_float 100 = 100" "int_of_float 10 = 10" "int_of_float (1 / 2) = 0"
  by (simp_all add: int_of_float_def)

lemma recent_failures_last_ten:
  "\<exists>older. failed_trades self = older @ recent_failures self
     \<and> length (recent_failures self) = min 10 (length (failed_trades self))"
proof (cases "failed_trades self = []")
  case True
  then show ?thesis by (simp add: recent_failures_def)
next
  case False
  have "failed_trades self =
          take (length (failed_trades self) - 10) (failed_trades self) @ recent_failures self"
    using False by (simp add: recent_failures_def)
  moreover have "length (recent_failures self) = min 10 (length (failed_trades self))"
    using False by (simp add: recent_failures_def min_def)
  ultimately show ?thesis by blast
qed

lemma recent_failures_snoc:
  "failed_trades self = xs @ [x] \<Longrightarrow> last (recent_failures self) = x"
  by (auto simp add: recent_failures_def)


lemma executor_returns:
  "\<exists>n. fst (execute_trade_async ops call now ticker action qty cp portfolio self) = Inr n"
  by (auto simp add: execute_trade_async_def Let_def split: option.splits prod.splits sum.splits)

lemma executor_on_exception:
  assumes "0 < q" and "action \<noteq> ''hold''"
    and "call ticker action (int_of_float q) (Some cp) (trader self) = (Inl e, t)"
  shows "execute_trade_async ops call now ticker action (Some q) cp portfolio self =
    (Inr 0, portfolio,
     self\<lparr>total_trades := total_trades self + 1, trader := t,
          failed_trades := failed_trades self @
            [\<lparr>ft_timestamp = now, ft_ticker = ticker, ft_action = action,
              ft_requested_qty = q, ft_executed_qty = 0, ft_price = cp,
              ft_error = Some e\<rparr>]\<rparr>)"
  using assms by (simp add: execute_trade_async_def Let_def)

lemma executor_on_nothing:
  assumes "0 < q" and "action \<noteq> ''hold''"
    and "call ticker action (int_of_float q) (Some cp) (trader self) = (Inr n, t)"
    and "n \<le> 0"
  shows "execute_trade_async ops call now ticker action (Some q) cp portfolio self =
    (Inr n, portfolio,
     self\<lparr>total_trades := total_trades self + 1, trader := t,
          failed_trades := failed_trades self @
            [\<lparr>ft_timestamp = now, ft_ticker = ticker, ft_action = action,
              ft_requested_qty = q, ft_executed_qty = n, ft_price = cp,
              ft_error = None\<rparr>]\<rparr>)"
  using assms by (simp add: execute_trade_async_def Let_def)

lemma executor_on_fill:
  assumes "0 < q" and "action \<noteq> ''hold''"
    and "call ticker action (int_of_float q) (Some cp) (trader self) = (Inr n, t)"
    and "0 < n"
  shows "execute_trade_async ops call now ticker action (Some q) cp portfolio self =
    (Inr n, update_local_portfolio ops portfolio ticker action n cp,
     self\<lparr>total_trades := total_trades self + 1, trader := t,
          successful_trades := successful_trades self + 1\<rparr>)"
  using assms by (simp add: execute_trade_async_def Let_def)

text \<open>
  Claim C10.  No call of \<open>execute_trade_async\<close> lets an exception out: whatever the trader
  does, the call returns an integer.  When the trader's \<open>execute_trade\<close> raises, and when
  it reports nothing filled, an entry with the timestamp, the requested and executed
  quantities, the price and (for an exception) the error is appended to the failed-trade
  log and the call returns 0; when the trader reports a fill the call returns the executed
  quantity.  The report exposes the last 10 entries of the log, all of them when there
  are fewer.
\<close>

theorem executor_never_raises:
  "(\<exists>n. fst (execute_trade_async ops call now ticker action qty cp portfolio self) = Inr n)
   \<and> (\<exists>older.
         failed_trades (snd (snd (execute_trade_async ops call now ticker action qty cp
           portfolio self))) =
           older @ recent_failures (snd (snd (execute_trade_async ops call now ticker action
             qty cp portfolio self)))
       \<and> length (recent_failures (snd (snd (execute_trade_async ops call now ticker action
             qty cp portfolio self)))) =
           min 10 (length (failed_trades (snd (snd (execute_trade_async ops call now ticker
             action qty cp portfolio self))))))
   \<and> (qty = Some q \<and> 0 < q \<and> action \<noteq> ''hold'' \<longrightarrow>
        (\<forall>e t. call ticker action (int_of_float q) (Some cp) (trader self) = (Inl e, t) \<longrightarrow>
           fst (execute_trade_async ops call now ticker action qty cp portfolio self) = Inr 0
           \<and> failed_trades (snd (snd (execute_trade_async ops call now ticker action qty cp
                portfolio self))) =
               failed_trades self @
                 [\<lparr>ft_timestamp = now, ft_ticker = ticker, ft_action = action,
                   ft_requested_qty = q, ft_executed_qty = 0, ft_price = cp,
                   ft_error = Some e\<rparr>]
           \<and> last (recent_failures (snd (snd (execute_trade_async ops call now ticker action
                qty cp portfolio self)))) =
                 \<lparr>ft_timestamp = now, ft_ticker = ticker, ft_action = action,
                   ft_requested_qty = q, ft_executed_qty = 0, ft_price = cp,
                   ft_error = Some e\<rparr>)
        \<and> (\<forall>t. call ticker action (int_of_float q) (Some cp) (trader self) = (Inr 0, t) \<longrightarrow>
           fst (execute_trade_async ops call now ticker action qty cp portfolio self) = Inr 0
           \<and> failed_trades (snd (snd (execute_trade_async ops call now ticker action qty cp
                portfolio self))) =
               failed_trades self @
                 [\<lparr>ft_timestamp = now, ft_ticker = ticker, ft_action = action,
                   ft_requested_qty = q, ft_executed_qty = 0, ft_price = cp,
                   ft_error = None\<rparr>]
           \<and> last (recent_failures (snd (snd (execute_trade_async ops call now ticker action
                qty cp portfolio self)))) =
                 \<lparr>ft_timestamp = now, ft_ticker = ticker, ft_action = action,
                   ft_requested_qty = q, ft_executed_qty = 0, ft_price = cp,
                   ft_error = None\<rparr>)
        \<and> (\<forall>n t. call ticker action (int_of_float q) (Some cp) (trader self) = (Inr n, t)
                 \<and> 0 < n \<longrightarrow>
           fst (execute_trade_async ops call now ticker action qty cp portfolio self) = Inr n
           \<and> failed_trades (snd (snd (execute_trade_async ops call now ticker action qty cp
                portfolio self))) = failed_trades self))"
proof (intro conjI impI allI)
  show "\<exists>n. fst (execute_trade_async ops call now ticker action qty cp portfolio self) = Inr n"
    by (rule executor_returns)
next
  show "\<exists>older.
         failed_trades (snd (snd (execute_trade_async ops call now ticker action qty cp
           portfolio self))) =
           older @ recent_failures (snd (snd (execute_trade_async ops call now ticker action
             qty cp portfolio self)))
       \<and> length (recent_failures (snd (snd (execute_trade_async ops call now ticker action
             qty cp portfolio self)))) =
           min 10 (length (failed_trades (snd (snd (execute_trade_async ops call now ticker
             action qty cp portfolio self)))))"
    by (rule recent_failures_last_ten)
next
  fix e t
  assume a: "qty = Some q \<and> 0 < q \<and> action \<noteq> ''hold''"
    and c: "call ticker action (int_of_float q) (Some cp) (trader self) = (Inl e, t)"
  let ?out = "execute_trade_async ops call now ticker action qty cp portfolio self"
  let ?entry = "\<lparr>ft_timestamp = now, ft_ticker = ticker, ft_action = action,
                   ft_requested_qty = q, ft_executed_qty = 0, ft_price = cp,
                   ft_error = Some e\<rparr>"
  from a have q: "0 < q" and h: "action \<noteq> ''hold''" and qq: "qty = Some q" by simp_all
  note out = executor_on_exception [where call = call and self = self and ticker = ticker
      and cp = cp and ops = ops and now = now and portfolio = portfolio, OF q h c]
  show "fst ?out = Inr 0" by (simp add: qq out)
  show f: "failed_trades (snd (snd ?out)) = failed_trades self @ [?entry]"
    by (simp add: qq out)
  show "last (recent_failures (snd (snd ?out))) = ?entry"
    by (rule recent_failures_snoc [OF f])
next
  fix t
  assume a: "qty = Some q \<and> 0 < q \<and> action \<noteq> ''hold''"
    and c: "call ticker action (int_of_float q) (Some cp) (trader self) = (Inr 0, t)"
  let ?out = "execute_trade_async ops call now ticker action qty cp portfolio self"
  let ?entry = "\<lparr>ft_timestamp = now, ft_ticker = ticker, ft_action = action,
                   ft_requested_qty = q, ft_executed_qty = 0, ft_price = cp,
                   ft_error = None\<rparr>"
  from a have q: "0 < q" and h: "action \<noteq> ''hold''" and qq: "qty = Some q" by simp_all
  have z: "(0::int) \<le> 0" by simp
  note out = executor_on_nothing [where call = call and self = self and ticker = ticker
      and cp = cp and ops = ops and now = now and portfolio = portfolio, OF q h c z]
  show "fst ?out = Inr 0" by (simp add: qq out)
  show f: "failed_trades (snd (snd ?out)) = failed_trades self @ [?entry]"
    by (simp add: qq out)
  show "last (recent_failures (snd (snd ?out))) = ?entry"
    by (rule recent_failures_snoc [OF f])
next
  fix n t
  assume a: "qty = Some q \<and> 0 < q \<and> action \<noteq> ''hold''"
    and c: "call ticker action (int_of_float q) (Some cp) (trader self) = (Inr n, t) \<and> 0 < n"
  let ?out = "execute_trade_async ops call now ticker action qty cp portfolio self"
  from a have q: "0 < q" and h: "action \<noteq> ''hold''" and qq: "qty = Some q" by simp_all
  from c have c1: "call ticker action (int_of_float q) (Some cp) (trader self) = (Inr n, t)"
    and n: "0 < n" by simp_all
  note out = executor_on_fill [where call = call and self = self and ticker = ticker
      and cp = cp and ops = ops and now = now and portfolio = portfolio, OF q h c1 n]
  show "fst ?out = Inr n" by (simp add: qq out)
  show "failed_trades (snd (snd ?out)) = failed_trades self" by (simp add: qq out)
qed

lemma paper_call_raises:
  "execute_trade (submit_order (0, 0) ''u1'') ''AAPL'' ''buy'' (int_of_float 10) (Some 150)
     (trader (new_executor paper_trader)) = (Inl (NameError ''MarketType''), paper_trader)"
  by (simp add: execute_trade_raises int_of_float_numeral new_executor_def)

lemma paper_call_zero:
  "execute_trade (submit_order (0, 0) ''u1'') ''AAPL'' ''buy'' (int_of_float (1 / 2))
     (Some 150) (trader (new_executor paper_trader)) = (Inr 0, paper_trader)"
  by (simp add: execute_trade_zero int_of_float_numeral new_executor_def)

lemma dealing_call:
  "dealing_execute_trade ''AAPL'' ''buy'' (int_of_float 10) (Some 150)
     (trader (new_executor dealing_trader)) =
     (Inr 4, dealing_trader\<lparr>trade_history := [dealt_result ''AAPL'' 10]\<rparr>)"
  by (simp add: dealing_execute_trade_def dealt_result_def int_of_float_numeral
        new_executor_def dealing_trader_def)

theorem executor_never_raises_witness:
  "fst (execute_trade_async recording_ops (execute_trade (submit_order (0, 0) ''u1''))
          (0, 0) ''AAPL'' ''buy'' (Some 10) 150 [] (new_executor paper_trader)) = Inr 0
   \<and> map ft_error (failed_trades (snd (snd
        (execute_trade_async recording_ops (execute_trade (submit_order (0, 0) ''u1''))
           (0, 0) ''AAPL'' ''buy'' (Some 10) 150 [] (new_executor paper_trader))))) =
       [Some (NameError ''MarketType'')]
   \<and> fst (execute_trade_async recording_ops (execute_trade (submit_order (0, 0) ''u1''))
          (0, 0) ''AAPL'' ''buy'' (Some (1 / 2)) 150 [] (new_executor paper_trader)) = Inr 0
   \<and> map ft_error (failed_trades (snd (snd
        (execute_trade_async recording_ops (execute_trade (submit_order (0, 0) ''u1''))
           (0, 0) ''AAPL'' ''buy'' (Some (1 / 2)) 150 [] (new_executor paper_trader))))) =
       [None]
   \<and> fst (execute_trade_async recording_ops dealing_execute_trade
          (0, 0) ''AAPL'' ''buy'' (Some 10) 150 [] (new_executor dealing_trader)) = Inr 4"
proof -
  have p10: "Some (10::real) = Some 10 \<and> (0::real) < 10 \<and> ''buy'' \<noteq> ''hold''" by simp
  have p12: "Some (1 / 2 :: real) = Some (1 / 2) \<and> (0::real) < 1 / 2 \<and> ''buy'' \<noteq> ''hold''"
    by simp
  have d: "dealing_execute_trade ''AAPL'' ''buy'' (int_of_float 10) (Some 150)
             (trader (new_executor dealing_trader)) =
             (Inr 4, dealing_trader\<lparr>trade_history := [dealt_result ''AAPL'' 10]\<rparr>)
           \<and> (0::int) < 4"
    using dealing_call by simp
  note t1 = executor_never_raises [where call = "execute_trade (submit_order (0, 0) ''u1'')"
      and ops = recording_ops and now = "(0, 0)" and ticker = "''AAPL''" and action = "''buy''"
      and qty = "Some 10" and q = 10 and cp = 150 and portfolio = "[]"
      and self = "new_executor paper_trader",
      THEN conjunct2, THEN conjunct2, rule_format, OF p10, THEN conjunct1, rule_format,
      OF paper_call_raises]
  note t2 = executor_never_raises [where call = "execute_trade (submit_order (0, 0) ''u1'')"
      and ops = recording_ops and now = "(0, 0)" and ticker = "''AAPL''" and action = "''buy''"
      and qty = "Some (1 / 2)" and q = "1 / 2" and cp = 150 and portfolio = "[]"
      and self = "new_executor paper_trader",
      THEN conjunct2, THEN conjunct2, rule_format, OF p12, THEN conjunct2, THEN conjunct1,
      rule_format, OF paper_call_zero]
  note t3 = executor_never_raises [where call = dealing_execute_trade
      and ops = recording_ops and now = "(0, 0)" and ticker = "''AAPL''" and action = "''buy''"
      and qty = "Some 10" and q = 10 and cp = 150 and portfolio = "[]"
      and self = "new_executor dealing_trader",
      THEN conjunct2, THEN conjunct2, rule_format, OF p10, THEN conjunct2, THEN conjunct2,
      rule_format, OF d]
  show ?thesis
    using t1 t2 t3 by (simp add: new_executor_def)
qed




text \<open>
  Claim C1, amended.  The execute path does not involve the risk manager: a round of the
  loop of \<open>run_live_hedge_fund\<close>, with the call of \<open>execute_trade_async\<close> in it, neither
  validates the order against the risk manager nor records a fill with it, and leaves the
  manager, \<open>daily_trades\<close> included, as it was.
\<close>

theorem execute_path_leaves_risk_manager:
  "risk_manager (run_decision ops now uuid ticker action qty s) = risk_manager s"
  by (simp add: run_decision_def Let_def split: option.splits prod.splits sum.splits)

lemma paper_session_fields:
  "executor paper_session = new_executor paper_trader"
  "portfolio_obj paper_session = []"
  "daily_trades (risk_manager paper_session) = 0"
  by (simp_all add: paper_session_def main_risk_manager_def RiskManager_init_def)

text \<open>
  Claim C1 as stated fails: in the dry-run scenario (AAPL, buy, 10 shares, price 150.00,
  trader connected, market price available) the \<open>daily_trades\<close> counter of the risk manager
  has not increased by 1; and the executor has returned 0 and left the portfolio alone.
\<close>

theorem risk_manager_untouched_counterexample:
  "fst (futu_execute_trade_async recording_ops (0, 0) ''u1'' ''AAPL'' ''buy'' (Some 10) 150
          (portfolio_obj paper_session) (executor paper_session)) = Inr 0
   \<and> portfolio_obj (run_decision recording_ops (0, 0) ''u1'' ''AAPL'' ''buy'' 10
        paper_session) = portfolio_obj paper_session
   \<and> daily_trades (risk_manager (run_decision recording_ops (0, 0) ''u1'' ''AAPL'' ''buy'' 10
        paper_session)) = daily_trades (risk_manager paper_session)
   \<and> daily_trades (risk_manager (run_decision recording_ops (0, 0) ''u1'' ''AAPL'' ''buy'' 10
        paper_session)) \<noteq> daily_trades (risk_manager paper_session) + 1"
proof -
  have q: "(0::real) < 10" and h: "''buy'' \<noteq> ''hold''" by simp_all
  note out = executor_on_exception [where call = "execute_trade (submit_order (0, 0) ''u1'')"
      and ops = recording_ops and now = "(0, 0)" and portfolio = "[]", OF q h paper_call_raises]
  have p: "get_market_price ''AAPL'' (trader (new_executor paper_trader)) = Some 150"
    by (simp add: new_executor_def paper_price)
  show ?thesis
    by (simp add: run_decision_def paper_session_fields futu_execute_trade_async_def out p)
qed






end
